theory Spec2Isabelle
  imports Complex_Main "HOL-Library.Sublist"
begin

section \<open>Python values\<close>

text \<open>
  The backend is a Flask application (\<^verbatim>\<open>app.py\<close>). Each handler reads the JSON body of
  the request, calls library code (pandas, re, requests, smtplib, firestore) and answers
  with a JSON body and a status. Every handler wraps its whole body in
  \<^verbatim>\<open>try: ... except Exception\<close>, so every exception raised inside becomes that handler's
  generic 500 answer. Exceptions are values of type \<open>exn\<close>; fallible steps return
  \<open>exn + 'a\<close>.

  A JSON object is the association list of the parsed dict (keys distinct; a lookup takes
  the first entry of a key). Strings are sequences of code points, restricted to
  U+0000..U+00FF (one \<open>char\<close> each).
  A Python \<^verbatim>\<open>float\<close> is an IEEE double: finite values are \<open>Fin m e\<close>, standing for
  \<open>m * 2 ^ e\<close>; the sign of zero is not kept (no operation below reads it).
\<close>

datatype pyfloat = Fin int int | PInf | NInf | NaN

datatype json =
    JNull
  | JBool bool
  | JInt int
  | JFloat pyfloat
  | JStr string
  | JArr "json list"
  | JObj "(string \<times> json) list"

datatype exn =
    AttributeError
  | TypeError
  | ValueError
  | OverflowError
  | KeyError json
  | IndexError
  | ReError
  | JSONDecodeError
  | RequestException

text \<open>
  Library behaviour that is not part of the repository and is not modelled here is a
  parameter: Python's parsers of numbers from text (\<^verbatim>\<open>float(s)\<close>, \<^verbatim>\<open>int(s)\<close>), the regular
  expression compiler on patterns outside the fragment modelled below, and the text of an
  exception (\<^verbatim>\<open>str(e)\<close>). \<open>None\<close> stands for the exception the library raises.
\<close>

record pylib =
  float_of_str :: "string \<Rightarrow> pyfloat option"
  int_of_str :: "string \<Rightarrow> int option"
  re_compile_ext :: "string \<Rightarrow> (string \<Rightarrow> bool) option"
  exn_text :: "exn \<Rightarrow> string"

type_synonym response = "json \<times> nat"

definition and_then :: "exn + 'a \<Rightarrow> ('a \<Rightarrow> exn + 'b) \<Rightarrow> exn + 'b" where
  "and_then r f = (case r of Inl e \<Rightarrow> Inl e | Inr v \<Rightarrow> f v)"

subsection \<open>Floats\<close>

text \<open>The number of binary digits of a positive integer.\<close>

function bitlen :: "int \<Rightarrow> nat" where
  "bitlen n = (if n \<le> 0 then 0 else Suc (bitlen (n div 2)))"
  by pat_completeness auto
termination
  by (relation "measure nat") auto

declare bitlen.simps [simp del]

text \<open>\<open>round_half_even m k\<close> is \<open>m / 2 ^ k\<close> rounded to the nearest integer, ties to even.\<close>

definition round_half_even :: "int \<Rightarrow> nat \<Rightarrow> int" where
  "round_half_even m k =
     (let q = m div 2 ^ k; r = m mod 2 ^ k
      in if 2 * r < 2 ^ k then q
         else if 2 ^ k < 2 * r then q + 1
         else if even q then q else q + 1)"

text \<open>
  The double nearest to \<open>m * 2 ^ e\<close>: at most 53 bits of mantissa, exponent at least
  \<open>-1074\<close>, infinite from \<open>2 ^ 1024\<close> on.
\<close>

definition round_double :: "int \<Rightarrow> int \<Rightarrow> pyfloat" where
  "round_double m e =
     (let k = nat (max (int (bitlen \<bar>m\<bar>) - 53) (- 1074 - e));
          m' = round_half_even m k;
          e' = e + int k
      in if 1024 < int (bitlen \<bar>m'\<bar>) + e' then (if 0 < m' then PInf else NInf)
         else Fin m' e')"

fun fmul :: "pyfloat \<Rightarrow> pyfloat \<Rightarrow> pyfloat" where
  "fmul (Fin m1 e1) (Fin m2 e2) = round_double (m1 * m2) (e1 + e2)"
| "fmul NaN y = NaN"
| "fmul x NaN = NaN"
| "fmul (Fin m e) PInf = (if 0 < m then PInf else if m < 0 then NInf else NaN)"
| "fmul (Fin m e) NInf = (if 0 < m then NInf else if m < 0 then PInf else NaN)"
| "fmul PInf (Fin m e) = (if 0 < m then PInf else if m < 0 then NInf else NaN)"
| "fmul NInf (Fin m e) = (if 0 < m then NInf else if m < 0 then PInf else NaN)"
| "fmul PInf PInf = PInf"
| "fmul PInf NInf = NInf"
| "fmul NInf PInf = NInf"
| "fmul NInf NInf = PInf"

text \<open>\<^verbatim>\<open>x <= y\<close> on floats: false as soon as one side is NaN.\<close>

fun fle :: "pyfloat \<Rightarrow> pyfloat \<Rightarrow> bool" where
  "fle NaN y = False"
| "fle x NaN = False"
| "fle NInf y = True"
| "fle x PInf = True"
| "fle PInf y = False"
| "fle x NInf = False"
| "fle (Fin m1 e1) (Fin m2 e2) = (m1 * 2 ^ nat (e1 - e2) \<le> m2 * 2 ^ nat (e2 - e1))"

text \<open>\<^verbatim>\<open>int(x)\<close> on a float truncates towards zero and raises on infinities and NaN.\<close>

fun int_of_float :: "pyfloat \<Rightarrow> exn + int" where
  "int_of_float (Fin m e) =
     Inr (if 0 \<le> e then m * 2 ^ nat e else sgn m * (\<bar>m\<bar> div 2 ^ nat (- e)))"
| "int_of_float PInf = Inl OverflowError"
| "int_of_float NInf = Inl OverflowError"
| "int_of_float NaN = Inl ValueError"

text \<open>\<^verbatim>\<open>float(n)\<close> on an int rounds to the nearest double and raises when there is none.\<close>

definition float_of_int :: "int \<Rightarrow> exn + pyfloat" where
  "float_of_int n =
     (case round_double n 0 of Fin m e \<Rightarrow> Inr (Fin m e) | _ \<Rightarrow> Inl OverflowError)"

text \<open>The rational number a finite float stands for, and truncation of a rational.\<close>

fun valof :: "pyfloat \<Rightarrow> rat" where
  "valof (Fin m e) = (if 0 \<le> e then of_int m * 2 ^ nat e else of_int m / 2 ^ nat (- e))"
| "valof PInf = 0"
| "valof NInf = 0"
| "valof NaN = 0"

definition trunc :: "rat \<Rightarrow> int" where
  "trunc q = (if 0 \<le> q then \<lfloor>q\<rfloor> else \<lceil>q\<rceil>)"

subsection \<open>Strings\<close>

definition lower_char :: "char \<Rightarrow> char" where
  "lower_char c =
     (let n = (of_char c :: nat)
      in if (65 \<le> n \<and> n \<le> 90) \<or> (192 \<le> n \<and> n \<le> 222 \<and> n \<noteq> 215) then char_of (n + 32)
         else c)"

definition lower :: "string \<Rightarrow> string" where
  "lower s = map lower_char s"

definition is_space :: "char \<Rightarrow> bool" where
  "is_space c =
     (let n = (of_char c :: nat)
      in (9 \<le> n \<and> n \<le> 13) \<or> (28 \<le> n \<and> n \<le> 32) \<or> n = 133 \<or> n = 160)"

definition strip :: "string \<Rightarrow> string" where
  "strip s = rev (dropWhile is_space (rev (dropWhile is_space s)))"

subsection \<open>Dictionaries, conversions, truth values\<close>

text \<open>\<^verbatim>\<open>data.get(k, dflt)\<close>: only a dict has \<^verbatim>\<open>get\<close>.\<close>

definition dict_get :: "json \<Rightarrow> string \<Rightarrow> json \<Rightarrow> exn + json" where
  "dict_get d k dflt =
     (case d of
        JObj kvs \<Rightarrow> Inr (case map_of kvs k of Some v \<Rightarrow> v | None \<Rightarrow> dflt)
      | _ \<Rightarrow> Inl AttributeError)"

text \<open>A string method (\<^verbatim>\<open>upper\<close>, \<^verbatim>\<open>lower\<close>, \<^verbatim>\<open>strip\<close>) on a value that is not a string raises.\<close>

definition as_str :: "json \<Rightarrow> exn + string" where
  "as_str v = (case v of JStr s \<Rightarrow> Inr s | _ \<Rightarrow> Inl AttributeError)"

definition py_float :: "pylib \<Rightarrow> json \<Rightarrow> exn + pyfloat" where
  "py_float lib v =
     (case v of
        JInt n \<Rightarrow> float_of_int n
      | JFloat f \<Rightarrow> Inr f
      | JBool b \<Rightarrow> Inr (if b then Fin 1 0 else Fin 0 0)
      | JStr s \<Rightarrow> (case float_of_str lib s of Some f \<Rightarrow> Inr f | None \<Rightarrow> Inl ValueError)
      | _ \<Rightarrow> Inl TypeError)"

definition py_int :: "pylib \<Rightarrow> json \<Rightarrow> exn + int" where
  "py_int lib v =
     (case v of
        JInt n \<Rightarrow> Inr n
      | JFloat f \<Rightarrow> int_of_float f
      | JBool b \<Rightarrow> Inr (if b then 1 else 0)
      | JStr s \<Rightarrow> (case int_of_str lib s of Some n \<Rightarrow> Inr n | None \<Rightarrow> Inl ValueError)
      | _ \<Rightarrow> Inl TypeError)"

fun truthy :: "json \<Rightarrow> bool" where
  "truthy JNull = False"
| "truthy (JBool b) = b"
| "truthy (JInt n) = (n \<noteq> 0)"
| "truthy (JFloat (Fin m e)) = (m \<noteq> 0)"
| "truthy (JFloat f) = True"
| "truthy (JStr s) = (s \<noteq> [])"
| "truthy (JArr xs) = (xs \<noteq> [])"
| "truthy (JObj kvs) = (kvs \<noteq> [])"

section \<open>The course catalog and the profile matcher\<close>

text \<open>
  \<^verbatim>\<open>df\<close> is loaded once from \<^verbatim>\<open>course_data.csv\<close>; when loading fails it is
  \<^verbatim>\<open>pd.DataFrame()\<close>, a table with no columns (\<open>NoTable\<close>). A loaded table is a list of
  rows in file order. \<^verbatim>\<open>pd.read_csv\<close> reads an empty or NA cell as a missing value: \<open>None\<close>
  in a text or budget cell, \<open>NaN\<close> in the minimum GPA. A present text cell is a string, a
  present budget cell an integer (a budget column with a missing cell is held as floats,
  which compare like the integers below \<open>2 ^ 53\<close> in magnitude).
\<close>

record CourseRow =
  career_goal :: "string option"
  personality_min_gpa :: pyfloat
  min_budget :: "int option"
  max_budget :: "int option"
  learning_style :: "string option"
  recommended_course :: "string option"
  university :: "string option"
  country :: "string option"

datatype catalog = NoTable | Table "CourseRow list"

subsection \<open>Regular expressions\<close>

text \<open>
  \<^verbatim>\<open>Series.str.contains(goal)\<close> compiles \<^verbatim>\<open>goal\<close> as a regular expression (pandas' default
  \<^verbatim>\<open>regex=True\<close>, case sensitive) before it looks at any row, and then searches each cell.
  Modelled: patterns made of ordinary characters and \<^verbatim>\<open>.\<close> (any character but a newline),
  and the error \<^verbatim>\<open>nothing to repeat\<close> of a pattern that starts with a quantifier. Every
  other pattern is left to the library parameter.
\<close>

definition re_special :: "char list" where
  "re_special =
     [CHR ''^'', CHR ''$'', CHR ''*'', CHR ''+'', CHR ''?'', CHR ''{'', CHR ''}'',
      CHR ''['', CHR '']'', CHR 0x5C, CHR ''|'', CHR ''('', CHR '')'']"

fun match_here :: "string \<Rightarrow> string \<Rightarrow> bool" where
  "match_here [] s = True"
| "match_here (p # ps) [] = False"
| "match_here (p # ps) (c # cs) =
     ((if p = CHR ''.'' then c \<noteq> CHR 0x0A else p = c) \<and> match_here ps cs)"

fun re_search :: "string \<Rightarrow> string \<Rightarrow> bool" where
  "re_search pat [] = match_here pat []"
| "re_search pat (c # cs) = (match_here pat (c # cs) \<or> re_search pat cs)"

definition re_compile :: "pylib \<Rightarrow> string \<Rightarrow> (string \<Rightarrow> bool) option" where
  "re_compile lib pat =
     (if list_all (\<lambda>c. c \<notin> set re_special) pat then Some (re_search pat)
      else if hd pat \<in> set [CHR ''*'', CHR ''+'', CHR ''?''] then None
      else re_compile_ext lib pat)"

subsection \<open>The handler of /analyze-profile\<close>

text \<open>
  The \<^verbatim>\<open>.str\<close> accessor of a column: a column of a non-empty table whose cells are all
  missing holds floats, not text, and the accessor raises.
\<close>

definition str_accessor :: "string option list \<Rightarrow> exn + unit" where
  "str_accessor cells =
     (if cells \<noteq> [] \<and> list_all (\<lambda>c. c = None) cells then Inl AttributeError else Inr ())"

text \<open>
  Lines 66 to 72. On a missing cell \<^verbatim>\<open>str.lower\<close> and \<^verbatim>\<open>str.contains\<close> give a missing
  value, which \<^verbatim>\<open>&\<close> turns into \<^verbatim>\<open>False\<close>; every comparison with a missing value is
  \<^verbatim>\<open>False\<close>. The parameter \<^verbatim>\<open>strict\<close> is never read.
\<close>

definition run_filter ::
  "pylib \<Rightarrow> catalog \<Rightarrow> string \<Rightarrow> pyfloat \<Rightarrow> int \<Rightarrow> string \<Rightarrow> bool \<Rightarrow> bool \<Rightarrow> bool
    \<Rightarrow> exn + CourseRow list" where
  "run_filter lib df goal gpa budget style strict drop_style relax_budget =
     (case df of
        NoTable \<Rightarrow> Inl (KeyError (JStr ''career_goal''))
      | Table rows \<Rightarrow>
          and_then (str_accessor (map career_goal rows)) (\<lambda>u.
          case re_compile lib goal of
            None \<Rightarrow> Inl ReError
          | Some found \<Rightarrow>
              and_then (if drop_style then Inr () else str_accessor (map learning_style rows))
                (\<lambda>u.
              Inr (filter
                (\<lambda>r. ((case career_goal r of Some cg \<Rightarrow> found (lower cg) | None \<Rightarrow> False)
                       \<and> fle (personality_min_gpa r) gpa)
                     \<and> (relax_budget
                        \<or> ((case min_budget r of Some lo \<Rightarrow> lo \<le> budget | None \<Rightarrow> False)
                           \<and> (case max_budget r of Some hi \<Rightarrow> budget \<le> hi | None \<Rightarrow> False)))
                     \<and> (drop_style
                        \<or> (case learning_style r of Some ls \<Rightarrow> lower ls = style
                            | None \<Rightarrow> False)))
                rows))))"

definition match_score :: "pyfloat \<Rightarrow> exn + int" where
  "match_score gpa = and_then (int_of_float (fmul gpa (Fin 10 0))) (\<lambda>n. Inr (min 100 n))"

text \<open>A cell in \<^verbatim>\<open>Series.tolist()\<close>: a missing cell is the float NaN.\<close>

definition cell_json :: "string option \<Rightarrow> json" where
  "cell_json c = (case c of Some s \<Rightarrow> JStr s | None \<Rightarrow> JFloat NaN)"

definition match_body :: "CourseRow list \<Rightarrow> int \<Rightarrow> json" where
  "match_body rows score =
     JObj [(''recommended_courses'', JArr (map (\<lambda>r. cell_json (recommended_course r)) rows)),
           (''top_universities'', JArr (map (\<lambda>r. cell_json (university r)) rows)),
           (''recommended_countries'', JArr (map (\<lambda>r. cell_json (country r)) rows)),
           (''match_score'', JInt score)]"

text \<open>
  Lines 60 to 64: the request's fields, coerced. \<^verbatim>\<open>personality\<close> is upper-cased and never
  read again, so only the failure of \<^verbatim>\<open>upper\<close> on a value that is not a string is kept.
  The result is the tuple of the handler's locals \<^verbatim>\<open>gpa\<close>, \<^verbatim>\<open>goal\<close>, \<^verbatim>\<open>budget\<close>, \<^verbatim>\<open>style\<close>.
  A body that is not a JSON object raises at the first \<^verbatim>\<open>data.get\<close>.
\<close>

definition read_profile :: "pylib \<Rightarrow> json \<Rightarrow> exn + (pyfloat \<times> string \<times> int \<times> string)" where
  "read_profile lib data =
     and_then (and_then (dict_get data ''personality'' (JStr [])) as_str) (\<lambda>personality.
     and_then (and_then (dict_get data ''gpa'' (JInt 0)) (py_float lib)) (\<lambda>gpa.
     and_then (and_then (dict_get data ''career_goal'' (JStr [])) as_str) (\<lambda>g.
     and_then (and_then (dict_get data ''budget'' (JInt 0)) (py_int lib)) (\<lambda>budget.
     and_then (and_then (dict_get data ''learning_style'' (JStr [])) as_str) (\<lambda>s.
     Inr (gpa, strip (lower g), budget, strip (lower s)))))))"

text \<open>Lines 74 to 88: the three calls of \<^verbatim>\<open>run_filter\<close>, the 404 answer, the first three rows.\<close>

definition match_profile ::
  "pylib \<Rightarrow> catalog \<Rightarrow> pyfloat \<Rightarrow> string \<Rightarrow> int \<Rightarrow> string \<Rightarrow> exn + response" where
  "match_profile lib df gpa goal budget style =
     and_then (run_filter lib df goal gpa budget style True False False) (\<lambda>matched.
     and_then (if matched = [] then run_filter lib df goal gpa budget style True True False
               else Inr matched) (\<lambda>matched.
     and_then (if matched = [] then run_filter lib df goal gpa budget style True True True
               else Inr matched) (\<lambda>matched.
     if matched = [] then Inr (JObj [(''error'', JStr ''No close matches found.'')], 404)
     else
       let top3 = take 3 matched in
       and_then (match_score gpa) (\<lambda>score. Inr (match_body top3 score, 200)))))"

definition analyze_profile_try :: "pylib \<Rightarrow> catalog \<Rightarrow> json \<Rightarrow> exn + response" where
  "analyze_profile_try lib df data =
     and_then (read_profile lib data)
       (\<lambda>(gpa, goal, budget, style). match_profile lib df gpa goal budget style)"

definition analyze_profile :: "pylib \<Rightarrow> catalog \<Rightarrow> json \<Rightarrow> response" where
  "analyze_profile lib df data =
     (case analyze_profile_try lib df data of
        Inl e \<Rightarrow> (JObj [(''error'', JStr ''Profile analysis failed'')], 500)
      | Inr r \<Rightarrow> r)"

text \<open>
  The tiers as the specification words them, for comparison with \<open>run_filter\<close>: all of
  (a) goal found in the row's career goal, (b) minimum GPA, (c) budget range, (d) learning
  style for \<open>Strict\<close>; (d) omitted for \<open>DropStyle\<close>; (c) and (d) omitted for
  \<open>DropStyleRelaxBudget\<close>. \<open>found\<close> is the search for the profile's goal; for substring
  containment it is \<open>sublist goal\<close>. A missing cell meets no condition.
\<close>

datatype MatchTier = Strict | DropStyle | DropStyleRelaxBudget

definition spec_accepts ::
  "(string \<Rightarrow> bool) \<Rightarrow> pyfloat \<Rightarrow> int \<Rightarrow> string \<Rightarrow> MatchTier \<Rightarrow> CourseRow \<Rightarrow> bool" where
  "spec_accepts found gpa budget style t r =
     ((\<exists>cg \<in> set_option (career_goal r). found (lower cg))
      \<and> fle (personality_min_gpa r) gpa
      \<and> (t = DropStyleRelaxBudget
         \<or> ((\<exists>lo \<in> set_option (min_budget r). lo \<le> budget)
            \<and> (\<exists>hi \<in> set_option (max_budget r). budget \<le> hi)))
      \<and> (t \<noteq> Strict \<or> (\<exists>ls \<in> set_option (learning_style r). lower ls = style)))"

definition spec_tier ::
  "(string \<Rightarrow> bool) \<Rightarrow> pyfloat \<Rightarrow> int \<Rightarrow> string \<Rightarrow> CourseRow list \<Rightarrow> MatchTier
    \<Rightarrow> CourseRow list" where
  "spec_tier found gpa budget style rows t = filter (spec_accepts found gpa budget style t) rows"

text \<open>The matches of the first tier, in the order Strict, DropStyle, DropStyleRelaxBudget,
  that has any.\<close>

definition spec_selected ::
  "(string \<Rightarrow> bool) \<Rightarrow> pyfloat \<Rightarrow> int \<Rightarrow> string \<Rightarrow> CourseRow list \<Rightarrow> CourseRow list" where
  "spec_selected found gpa budget style rows =
     (if spec_tier found gpa budget style rows Strict \<noteq> []
      then spec_tier found gpa budget style rows Strict
      else if spec_tier found gpa budget style rows DropStyle \<noteq> []
      then spec_tier found gpa budget style rows DropStyle
      else spec_tier found gpa budget style rows DropStyleRelaxBudget)"

section \<open>The handler of /generate-plan\<close>







section \<open>The handler of /send-email\<close>

text \<open>
  After the check of the parameters the handler builds the message and talks to the mail
  relay: \<^verbatim>\<open>smtplib.SMTP(...)\<close>, \<^verbatim>\<open>starttls\<close>, \<^verbatim>\<open>login\<close>, \<^verbatim>\<open>msg.as_string()\<close>, \<^verbatim>\<open>sendmail\<close>,
  \<^verbatim>\<open>quit\<close>. Each of these library calls returns or raises, as the environment \<open>env\<close> says;
  the handler's result comes with the list of the calls it made. The text of the message
  is not modelled.
\<close>

datatype mail_call = Connect | StartTLS | Login | AsString | SendMail json | Quit

fun run_calls :: "(mail_call \<Rightarrow> bool) \<Rightarrow> mail_call list \<Rightarrow> mail_call list \<times> bool" where
  "run_calls env [] = ([], True)"
| "run_calls env (c # cs) =
     (if env c then (case run_calls env cs of (t, ok) \<Rightarrow> (c # t, ok)) else ([c], False))"

definition read_email_params :: "json \<Rightarrow> exn + (json \<times> json \<times> json \<times> json)" where
  "read_email_params data =
     and_then (dict_get data ''to_email'' JNull) (\<lambda>to_email.
     and_then (dict_get data ''to_name'' JNull) (\<lambda>to_name.
     and_then (dict_get data ''plan_text'' JNull) (\<lambda>plan_text.
     and_then (dict_get data ''type'' JNull) (\<lambda>exam_type.
     Inr (to_email, to_name, plan_text, exam_type)))))"

definition send_email :: "(mail_call \<Rightarrow> bool) \<Rightarrow> json \<Rightarrow> response \<times> mail_call list" where
  "send_email env data =
     (case read_email_params data of
        Inl e \<Rightarrow> ((JObj [(''error'', JStr ''Failed to send email'')], 500), [])
      | Inr (to_email, to_name, plan_text, exam_type) \<Rightarrow>
          if \<not> list_all truthy [to_email, plan_text, exam_type]
          then ((JObj [(''error'', JStr ''Missing email parameters'')], 400), [])
          else
            (case run_calls env [Connect, StartTLS, Login, AsString, SendMail to_email, Quit] of
               (calls, True) \<Rightarrow> ((JObj [(''message'', JStr ''Email sent successfully'')], 200), calls)
             | (calls, False) \<Rightarrow> ((JObj [(''error'', JStr ''Failed to send email'')], 500), calls)))"

section \<open>The handler of /submit-feedback\<close>

text \<open>
  The stored entry; its \<^verbatim>\<open>timestamp\<close> is the sentinel \<^verbatim>\<open>SERVER_TIMESTAMP\<close>, filled in by
  the store, and carries nothing of the request. \<^verbatim>\<open>v[:100]\<close> keeps the first hundred
  characters of a string or items of a list and raises on every other JSON value. The
  collection is a list of entries; \<open>add_ok\<close> says whether the store accepts the write
  (\<^verbatim>\<open>db.collection("feedback").add\<close> raises otherwise).
\<close>

record FeedbackRecord =
  exam_type :: json
  rating :: json
  comment :: json
  plan_excerpt :: json

fun slice100 :: "json \<Rightarrow> exn + json" where
  "slice100 (JStr s) = Inr (JStr (take 100 s))"
| "slice100 (JArr xs) = Inr (JArr (take 100 xs))"
| "slice100 v = Inl TypeError"

definition feedback_entry :: "json \<Rightarrow> exn + FeedbackRecord" where
  "feedback_entry data =
     and_then (dict_get data ''exam_type'' JNull) (\<lambda>e.
     and_then (dict_get data ''rating'' JNull) (\<lambda>r.
     and_then (dict_get data ''comment'' JNull) (\<lambda>c.
     and_then (and_then (dict_get data ''plan_text'' (JStr [])) slice100) (\<lambda>x.
     Inr \<lparr>exam_type = e, rating = r, comment = c, plan_excerpt = x\<rparr>))))"

definition submit_feedback ::
  "(FeedbackRecord \<Rightarrow> bool) \<Rightarrow> FeedbackRecord list \<Rightarrow> json \<Rightarrow> response \<times> FeedbackRecord list" where
  "submit_feedback add_ok db data =
     (case feedback_entry data of
        Inl e \<Rightarrow> ((JObj [(''error'', JStr ''Feedback submission failed'')], 500), db)
      | Inr entry \<Rightarrow>
          if add_ok entry
          then ((JObj [(''message'', JStr ''Feedback stored in Firebase'')], 200), db @ [entry])
          else ((JObj [(''error'', JStr ''Feedback submission failed'')], 500), db))"

section \<open>Inputs for the examples\<close>

text \<open>
  A library for the closed examples: it parses no text as a number and compiles no
  pattern beyond the modelled fragment. The examples use it only where Python raises as
  well, or where it is never asked.
\<close>

definition strict_lib :: pylib where
  "strict_lib =
     \<lparr>float_of_str = (\<lambda>s. None), int_of_str = (\<lambda>s. None),
      re_compile_ext = (\<lambda>s. None), exn_text = (\<lambda>e. [])\<rparr>"

text \<open>The row and the profile of the specification's scenario (GPA 3.5 is \<open>7 / 2\<close>).\<close>

definition msds :: CourseRow where
  "msds =
     \<lparr>career_goal = Some ''data science'', personality_min_gpa = Fin 3 0, min_budget = Some 1000,
      max_budget = Some 5000, learning_style = Some ''visual'', recommended_course = Some ''MSDS'',
      university = Some ''X'', country = Some ''US''\<rparr>"

definition scenario_request :: json where
  "scenario_request =
     JObj [(''personality'', JStr ''INTJ''), (''gpa'', JFloat (Fin 7 (- 1))),
           (''career_goal'', JStr ''data''), (''budget'', JInt 3000),
           (''learning_style'', JStr ''visual'')]"


definition radiology :: CourseRow where
  "radiology =
     \<lparr>career_goal = Some ''Radiologist'', personality_min_gpa = Fin 7 (- 1), min_budget = Some 1000,
      max_budget = Some 9000, learning_style = Some ''visual'', recommended_course = Some ''MD Radiology'',
      university = Some ''Z'', country = Some ''DE''\<rparr>"








text \<open>A row that admits a negative GPA, and a profile with GPA \<open>-1\<close>.\<close>

definition remedial :: CourseRow where
  "remedial =
     \<lparr>career_goal = Some ''teacher'', personality_min_gpa = Fin (- 2) 0, min_budget = Some 0,
      max_budget = Some 1000, learning_style = Some ''visual'', recommended_course = Some ''Foundation Year'',
      university = Some ''U'', country = Some ''IN''\<rparr>"

definition negative_request :: json where
  "negative_request = JObj [(''gpa'', JInt (- 1)), (''career_goal'', JStr ''teacher'')]"

text \<open>Profiles with the GPAs 7.5, 11 and 0 (the default).\<close>

definition seven_half_request :: json where
  "seven_half_request = JObj [(''gpa'', JFloat (Fin 15 (- 1))), (''career_goal'', JStr ''teacher'')]"

definition eleven_request :: json where
  "eleven_request = JObj [(''gpa'', JInt 11), (''career_goal'', JStr ''teacher'')]"

definition zero_request :: json where
  "zero_request = JObj [(''career_goal'', JStr ''teacher'')]"


section \<open>Helper lemmas\<close>

lemma and_then_Inr [simp]: "and_then (Inr v) f = f v"
  by (simp add: and_then_def)

lemma and_then_Inl [simp]: "and_then (Inl e) f = Inl e"
  by (simp add: and_then_def)

lemma and_then_eq_Inr: "and_then r f = Inr y \<longleftrightarrow> (\<exists>v. r = Inr v \<and> f v = Inr y)"
  by (cases r) auto

lemma dict_get_obj:
  "dict_get (JObj kvs) k d = Inr (case map_of kvs k of Some v \<Rightarrow> v | None \<Rightarrow> d)"
  by (simp add: dict_get_def)

subsection \<open>Floats\<close>

lemma trunc_of_int: "trunc (of_int n) = n"
  by (simp add: trunc_def)

lemma trunc_shift_nonneg:
  assumes "0 \<le> m"
  shows "trunc (of_int m / 2 ^ k) = m div 2 ^ k"
proof -
  have "(0::rat) \<le> of_int m / 2 ^ k"
    using assms by simp
  moreover have "\<lfloor>(of_int m :: rat) / of_int (2 ^ k)\<rfloor> = m div 2 ^ k"
    by (rule floor_divide_of_int_eq)
  ultimately show ?thesis
    by (simp add: trunc_def)
qed

lemma trunc_shift_neg:
  assumes "m < 0"
  shows "trunc (of_int m / 2 ^ k) = - (\<bar>m\<bar> div 2 ^ k)"
proof -
  have neg: "(of_int m :: rat) / 2 ^ k < 0"
    using assms by (simp add: divide_neg_pos)
  have "\<lceil>(of_int m :: rat) / 2 ^ k\<rceil> = - \<lfloor>- ((of_int m :: rat) / 2 ^ k)\<rfloor>"
    by (simp add: ceiling_def)
  also have "- ((of_int m :: rat) / 2 ^ k) = of_int (- m) / of_int (2 ^ k)"
    by simp
  also have "\<lfloor>\<dots>\<rfloor> = (- m) div 2 ^ k"
    by (rule floor_divide_of_int_eq)
  finally show ?thesis
    using assms neg by (simp add: trunc_def)
qed

lemma int_of_float_trunc:
  assumes "int_of_float x = Inr n"
  shows "n = trunc (valof x)"
proof (cases x)
  case (Fin m e)
  show ?thesis
  proof (cases "0 \<le> e")
    case True
    have "trunc (of_int m * 2 ^ nat e) = m * 2 ^ nat e"
      using trunc_of_int [of "m * 2 ^ nat e"] by simp
    with assms Fin True show ?thesis by auto
  next
    case False
    show ?thesis
    proof (cases "0 \<le> m")
      case True
      with assms Fin \<open>\<not> 0 \<le> e\<close> trunc_shift_nonneg [OF True, of "nat (- e)"]
      show ?thesis by (cases "m = 0") auto
    next
      case False
      then have "m < 0" by simp
      with assms Fin \<open>\<not> 0 \<le> e\<close> trunc_shift_neg [OF \<open>m < 0\<close>, of "nat (- e)"]
      show ?thesis by auto
    qed
  qed
qed (use assms in auto)

lemma round_half_even_nonneg: "0 \<le> m \<Longrightarrow> 0 \<le> round_half_even m k"
  by (simp add: round_half_even_def Let_def pos_imp_zdiv_nonneg_iff)

lemma round_double_cases:
  "round_double m e = PInf \<or> round_double m e = NInf
   \<or> (\<exists>k. round_double m e = Fin (round_half_even m k) (e + int k))"
proof -
  define k where "k = nat (max (int (bitlen \<bar>m\<bar>) - 53) (- 1074 - e))"
  have "round_double m e =
          (if 1024 < int (bitlen \<bar>round_half_even m k\<bar>) + (e + int k)
           then (if 0 < round_half_even m k then PInf else NInf)
           else Fin (round_half_even m k) (e + int k))"
    unfolding round_double_def Let_def k_def by (rule refl)
  then show ?thesis
    by (metis (full_types))
qed

lemma int_of_float_nonneg:
  assumes "int_of_float (Fin m e) = Inr n" "0 \<le> m"
  shows "0 \<le> n"
  using assms by (auto simp: pos_imp_zdiv_nonneg_iff sgn_if split: if_splits)

lemma fle_zero: "fle (Fin 0 0) x \<longleftrightarrow> (\<exists>m e. x = Fin m e \<and> 0 \<le> m) \<or> x = PInf"
  by (cases x) (auto simp: zero_le_mult_iff)

lemma match_score_le_100: "match_score gpa = Inr s \<Longrightarrow> s \<le> 100"
  by (auto simp: match_score_def and_then_eq_Inr)

lemma match_score_nonneg:
  assumes "match_score gpa = Inr s" "fle (Fin 0 0) gpa"
  shows "0 \<le> s"
proof -
  from assms(1) obtain n where n: "int_of_float (fmul gpa (Fin 10 0)) = Inr n" and s: "s = min 100 n"
    by (auto simp: match_score_def and_then_eq_Inr)
  from assms(2) n obtain m e where g: "gpa = Fin m e" and m: "0 \<le> m"
    by (auto simp: fle_zero)
  from n g have r: "int_of_float (round_double (m * 10) e) = Inr n"
    by simp
  from round_double_cases [of "m * 10" e] r obtain k where
    "int_of_float (Fin (round_half_even (m * 10) k) (e + int k)) = Inr n"
    by auto
  moreover from m have "0 \<le> round_half_even (m * 10) k"
    by (intro round_half_even_nonneg) simp
  ultimately have "0 \<le> n"
    by (rule int_of_float_nonneg)
  with s show ?thesis by simp
qed

lemma match_score_trunc:
  assumes "match_score gpa = Inr s"
  shows "s = min 100 (trunc (valof (fmul gpa (Fin 10 0))))"
  using assms by (auto simp: match_score_def and_then_eq_Inr dest: int_of_float_trunc)

lemma fle_trans_zero:
  assumes "fle (Fin 0 0) a" "fle a b"
  shows "fle (Fin 0 0) b"
proof -
  from assms(1) consider m e where "a = Fin m e" "0 \<le> m" | "a = PInf"
    by (auto simp: fle_zero)
  then show ?thesis
  proof cases
    case 1
    show ?thesis
    proof (cases b)
      case (Fin m2 e2)
      with 1 assms(2) have "m * 2 ^ nat (e - e2) \<le> m2 * 2 ^ nat (e2 - e)" by simp
      moreover from 1 have "0 \<le> m * 2 ^ nat (e - e2)" by simp
      ultimately have "0 \<le> m2 * 2 ^ nat (e2 - e)" by linarith
      then have "0 \<le> m2" by (simp add: zero_le_mult_iff)
      with Fin show ?thesis by (simp add: fle_zero)
    qed (use 1 assms(2) in auto)
  next
    case 2
    with assms(2) show ?thesis by (cases b) auto
  qed
qed

subsection \<open>Lowercasing and stripping\<close>

lemma lower_char_idem: "lower_char (lower_char c) = lower_char c"
proof -
  define n where "n = (of_char c :: nat)"
  have n: "n < 256" by (simp add: n_def)
  show ?thesis
  proof (cases "(65 \<le> n \<and> n \<le> 90) \<or> (192 \<le> n \<and> n \<le> 222 \<and> n \<noteq> 215)")
    case True
    then have l: "lower_char c = char_of (n + 32)"
      by (simp add: lower_char_def n_def Let_def)
    from True have "(of_char (char_of (n + 32) :: char) :: nat) = n + 32"
      by (auto simp: of_char_of)
    with True l show ?thesis
      by (auto simp: lower_char_def Let_def)
  next
    case False
    then have "lower_char c = c"
      by (auto simp: lower_char_def n_def Let_def)
    then show ?thesis by simp
  qed
qed

lemma lower_idem: "lower (lower s) = lower s"
  by (simp add: lower_def lower_char_idem)

lemma set_strip: "set (strip s) \<subseteq> set s"
  by (auto simp: strip_def dest!: set_dropWhileD)

lemma lower_strip_lower: "lower (strip (lower s)) = strip (lower s)"
proof -
  have "lower_char c = c" if "c \<in> set (strip (lower s))" for c
  proof -
    from that set_strip have "c \<in> set (lower s)" by blast
    then show ?thesis by (auto simp: lower_def lower_char_idem)
  qed
  then show ?thesis
    unfolding lower_def [of "strip (lower s)"] by (simp add: map_idI)
qed

text \<open>The goal and the style a request reads to are lowercase already.\<close>

lemma read_profile_normalised:
  assumes "read_profile lib data = Inr (gpa, goal, budget, style)"
  shows "\<exists>g s. goal = strip (lower g) \<and> style = strip (lower s)
           \<and> lower goal = goal \<and> lower style = style"
  using assms by (auto simp: read_profile_def and_then_eq_Inr lower_strip_lower)

subsection \<open>Searching for the goal\<close>

lemma match_here_prefix: "CHR ''.'' \<notin> set pat \<Longrightarrow> match_here pat s = prefix pat s"
  by (induction pat s rule: match_here.induct) auto

lemma re_search_sublist: "CHR ''.'' \<notin> set pat \<Longrightarrow> re_search pat s = sublist pat s"
proof (induction s)
  case Nil
  then show ?case by (simp add: match_here_prefix)
next
  case (Cons c cs)
  then show ?case by (simp add: match_here_prefix sublist_Cons_right)
qed

lemma re_compile_literal:
  assumes "list_all (\<lambda>c. c \<notin> set (CHR ''.'' # re_special)) goal"
  shows "re_compile lib goal = Some (sublist goal)"
proof -
  from assms have a: "list_all (\<lambda>c. c \<notin> set re_special) goal" and b: "CHR ''.'' \<notin> set goal"
    by (auto simp: list_all_iff)
  from b have "re_search goal = sublist goal"
    by (auto simp: re_search_sublist)
  with a show ?thesis by (simp add: re_compile_def)
qed

lemma run_filter_table:
  assumes "re_compile lib goal = Some found"
  shows "run_filter lib (Table rows) goal gpa budget style strict drop_style relax_budget =
         (if rows \<noteq> [] \<and> (list_all (\<lambda>r. career_goal r = None) rows
                          \<or> (\<not> drop_style \<and> list_all (\<lambda>r. learning_style r = None) rows))
          then Inl AttributeError
          else Inr (filter
                 (\<lambda>r. (case career_goal r of Some cg \<Rightarrow> found (lower cg) | None \<Rightarrow> False)
                      \<and> fle (personality_min_gpa r) gpa
                      \<and> (relax_budget
                         \<or> ((case min_budget r of Some lo \<Rightarrow> lo \<le> budget | None \<Rightarrow> False)
                            \<and> (case max_budget r of Some hi \<Rightarrow> budget \<le> hi | None \<Rightarrow> False)))
                      \<and> (drop_style
                         \<or> (case learning_style r of Some ls \<Rightarrow> lower ls = style
                             | None \<Rightarrow> False)))
                 rows))"
  using assms by (auto simp: run_filter_def str_accessor_def list_all_iff conj_assoc)

lemma spec_accepts_cases:
  "spec_accepts found gpa budget style t r =
     ((case career_goal r of Some cg \<Rightarrow> found (lower cg) | None \<Rightarrow> False)
      \<and> fle (personality_min_gpa r) gpa
      \<and> (t = DropStyleRelaxBudget
         \<or> ((case min_budget r of Some lo \<Rightarrow> lo \<le> budget | None \<Rightarrow> False)
            \<and> (case max_budget r of Some hi \<Rightarrow> budget \<le> hi | None \<Rightarrow> False)))
      \<and> (t \<noteq> Strict \<or> (case learning_style r of Some ls \<Rightarrow> lower ls = style | None \<Rightarrow> False)))"
  by (simp add: spec_accepts_def split: option.splits)

lemma run_filter_tiers:
  assumes "re_compile lib goal = Some found"
    and "rows = [] \<or> (list_ex (\<lambda>r. career_goal r \<noteq> None) rows
                        \<and> list_ex (\<lambda>r. learning_style r \<noteq> None) rows)"
  shows "run_filter lib (Table rows) goal gpa budget style True False False
           = Inr (spec_tier found gpa budget style rows Strict)"
    and "run_filter lib (Table rows) goal gpa budget style True True False
           = Inr (spec_tier found gpa budget style rows DropStyle)"
    and "run_filter lib (Table rows) goal gpa budget style True True True
           = Inr (spec_tier found gpa budget style rows DropStyleRelaxBudget)"
  using assms(2)
  by (auto simp: run_filter_table [OF assms(1)] spec_tier_def spec_accepts_cases [abs_def]
      list_all_iff list_ex_iff)

lemma run_filter_strict_raises:
  assumes "rows \<noteq> []"
    and "list_all (\<lambda>r. career_goal r = None) rows \<or> list_all (\<lambda>r. learning_style r = None) rows"
  shows "\<exists>e. run_filter lib (Table rows) goal gpa budget style True False False = Inl e"
proof (cases "re_compile lib goal")
  case None
  then show ?thesis
    by (cases "str_accessor (map career_goal rows)") (simp_all add: run_filter_def)
next
  case (Some found)
  with assms show ?thesis
    by (auto simp: run_filter_table)
qed

lemma match_profile_table:
  assumes "re_compile lib goal = Some found"
    and "rows = [] \<or> (list_ex (\<lambda>r. career_goal r \<noteq> None) rows
                        \<and> list_ex (\<lambda>r. learning_style r \<noteq> None) rows)"
  shows "match_profile lib (Table rows) gpa goal budget style =
         (if spec_selected found gpa budget style rows = []
          then Inr (JObj [(''error'', JStr ''No close matches found.'')], 404)
          else and_then (match_score gpa)
                 (\<lambda>s. Inr (match_body (take 3 (spec_selected found gpa budget style rows)) s, 200)))"
  by (simp add: match_profile_def run_filter_tiers [OF assms] spec_selected_def)

lemma match_profile_raises:
  assumes "rows \<noteq> []"
    and "list_all (\<lambda>r. career_goal r = None) rows \<or> list_all (\<lambda>r. learning_style r = None) rows"
  shows "\<exists>e. match_profile lib (Table rows) gpa goal budget style = Inl e"
  using run_filter_strict_raises [OF assms, of lib goal gpa budget style]
  by (auto simp: match_profile_def)

lemma match_profile_no_pattern:
  assumes "re_compile lib goal = None"
  shows "\<exists>e. match_profile lib (Table rows) gpa goal budget style = Inl e"
  using assms
  by (cases "str_accessor (map career_goal rows)") (simp_all add: match_profile_def run_filter_def)

lemma match_profile_no_table:
  "\<exists>e. match_profile lib NoTable gpa goal budget style = Inl e"
  by (simp add: match_profile_def run_filter_def)


lemma analyze_profile_returned:
  assumes "read_profile lib data = Inr (gpa, goal, budget, style)"
    and "match_profile lib df gpa goal budget style = Inr r"
  shows "analyze_profile lib df data = r"
  using assms by (simp add: analyze_profile_def analyze_profile_try_def)

lemma not_usable:
  "(\<not> (rows = [] \<or> (list_ex (\<lambda>r. career_goal r \<noteq> None) rows
                        \<and> list_ex (\<lambda>r. learning_style r \<noteq> None) rows)))
   = (rows \<noteq> [] \<and> (list_all (\<lambda>r. career_goal r = None) rows
                    \<or> list_all (\<lambda>r. learning_style r = None) rows))"
  by (auto simp: list_all_iff list_ex_iff)

lemma match_body_explicit:
  "match_body rows score =
     JObj [(''recommended_courses'',
            JArr (map (\<lambda>r. case recommended_course r of Some s \<Rightarrow> JStr s | None \<Rightarrow> JFloat NaN) rows)),
           (''top_universities'',
            JArr (map (\<lambda>r. case university r of Some s \<Rightarrow> JStr s | None \<Rightarrow> JFloat NaN) rows)),
           (''recommended_countries'',
            JArr (map (\<lambda>r. case country r of Some s \<Rightarrow> JStr s | None \<Rightarrow> JFloat NaN) rows)),
           (''match_score'', JInt score)]"
  by (simp add: match_body_def cell_json_def)


lemma analyze_profile_success:
  assumes "analyze_profile lib df data = (body, 200)"
  shows "\<exists>gpa goal budget style rows found n.
           read_profile lib data = Inr (gpa, goal, budget, style) \<and> df = Table rows
           \<and> re_compile lib goal = Some found
           \<and> spec_selected found gpa budget style rows \<noteq> []
           \<and> int_of_float (fmul gpa (Fin 10 0)) = Inr n
           \<and> body = match_body (take 3 (spec_selected found gpa budget style rows)) (min 100 n)"
proof -
  from assms have t: "analyze_profile_try lib df data = Inr (body, 200)"
    by (auto simp: analyze_profile_def split: sum.splits)
  then obtain gpa goal budget style where
    rp: "read_profile lib data = Inr (gpa, goal, budget, style)"
    and mp: "match_profile lib df gpa goal budget style = Inr (body, 200)"
    by (auto simp: analyze_profile_try_def and_then_eq_Inr)
  from mp match_profile_no_table [of lib gpa goal budget style] have "df \<noteq> NoTable"
    by auto
  then obtain rows where df: "df = Table rows"
    by (cases df) auto
  from mp df match_profile_no_pattern [of lib goal rows gpa budget style]
  have "re_compile lib goal \<noteq> None"
    by auto
  then obtain found where f: "re_compile lib goal = Some found"
    by auto
  have u: "rows = [] \<or> (list_ex (\<lambda>r. career_goal r \<noteq> None) rows
                        \<and> list_ex (\<lambda>r. learning_style r \<noteq> None) rows)"
  proof (rule ccontr)
    assume n: "\<not> ?thesis"
    from n [unfolded not_usable] have "rows \<noteq> []"
      and "list_all (\<lambda>r. career_goal r = None) rows
           \<or> list_all (\<lambda>r. learning_style r = None) rows"
      by blast+
    from match_profile_raises [OF this, of lib gpa goal budget style] mp df show False
      by auto
  qed
  from mp df have "spec_selected found gpa budget style rows \<noteq> []
      \<and> (\<exists>n. int_of_float (fmul gpa (Fin 10 0)) = Inr n
           \<and> body = match_body (take 3 (spec_selected found gpa budget style rows)) (min 100 n))"
    by (auto simp: match_profile_table [OF f u] match_score_def and_then_eq_Inr split: if_splits)
  with rp df f show ?thesis by blast
qed




lemma spec_selected_min_gpa:
  assumes "spec_selected found gpa budget style rows \<noteq> []"
  shows "\<exists>r \<in> set rows. fle (personality_min_gpa r) gpa"
proof -
  from assms obtain r where "r \<in> set (spec_selected found gpa budget style rows)"
    by (cases "spec_selected found gpa budget style rows") auto
  then have "r \<in> set rows" and "fle (personality_min_gpa r) gpa"
    by (auto simp: spec_selected_def spec_tier_def spec_accepts_def split: if_splits)
  then show ?thesis
    by blast
qed

text \<open>For a goal without special characters the Strict tier is the specification's.\<close>

lemma strict_tier_literal:
  assumes "list_all (\<lambda>c. c \<notin> set (CHR ''.'' # re_special)) goal"
    and "rows = [] \<or> (list_ex (\<lambda>r. career_goal r \<noteq> None) rows
                        \<and> list_ex (\<lambda>r. learning_style r \<noteq> None) rows)"
  shows "run_filter lib (Table rows) goal gpa budget style True False False
           = Inr (spec_tier (sublist goal) gpa budget style rows Strict)"
  using re_compile_literal [OF assms(1), of lib] assms(2) by (rule run_filter_tiers(1))

subsection \<open>Reading the profile, the upstream answer, the mail parameters\<close>

lemma read_profile_gpa:
  assumes "dict_get data ''gpa'' (JInt 0) = Inr g" "py_float lib g = Inl e"
  shows "\<exists>e'. read_profile lib data = Inl e'"
proof (cases "and_then (dict_get data ''personality'' (JStr [])) as_str")
  case (Inl a)
  then show ?thesis by (simp add: read_profile_def)
next
  case (Inr b)
  with assms show ?thesis by (simp add: read_profile_def)
qed

lemma read_profile_budget:
  assumes "dict_get data ''budget'' (JInt 0) = Inr b" "py_int lib b = Inl e"
  shows "\<exists>e'. read_profile lib data = Inl e'"
proof -
  have "read_profile lib data = Inr p \<Longrightarrow> False" for p
    using assms by (auto simp: read_profile_def and_then_eq_Inr)
  then show ?thesis by (cases "read_profile lib data") auto
qed


lemma read_email_params_obj:
  "read_email_params (JObj kvs) =
     Inr (case map_of kvs ''to_email'' of Some v \<Rightarrow> v | None \<Rightarrow> JNull,
          case map_of kvs ''to_name'' of Some v \<Rightarrow> v | None \<Rightarrow> JNull,
          case map_of kvs ''plan_text'' of Some v \<Rightarrow> v | None \<Rightarrow> JNull,
          case map_of kvs ''type'' of Some v \<Rightarrow> v | None \<Rightarrow> JNull)"
  by (simp add: read_email_params_def dict_get_obj)

text \<open>A body that is not a JSON object has no \<^verbatim>\<open>get\<close>: 500, and no mail call either.\<close>

lemma send_email_not_object:
  assumes "\<forall>kvs. data \<noteq> JObj kvs"
  shows "send_email env data = ((JObj [(''error'', JStr ''Failed to send email'')], 500), [])"
  using assms by (cases data) (simp_all add: send_email_def read_email_params_def dict_get_def)

lemma send_email_attempts_delivery:
  assumes "map_of kvs ''to_email'' = Some a" "map_of kvs ''plan_text'' = Some b"
    "map_of kvs ''type'' = Some c" "truthy a" "truthy b" "truthy c"
  shows "\<exists>calls. snd (send_email env (JObj kvs)) = Connect # calls"
  using assms by (auto simp: send_email_def read_email_params_obj split: prod.splits bool.splits if_splits)

lemma feedback_entry_excerpt:
  assumes "feedback_entry data = Inr entry"
  shows "(\<exists>s. plan_excerpt entry = JStr s \<and> length s \<le> 100)
         \<or> (\<exists>xs. plan_excerpt entry = JArr xs \<and> length xs \<le> 100)"
proof -
  from assms obtain v x where v: "slice100 v = Inr x" and x: "plan_excerpt entry = x"
    by (auto simp: feedback_entry_def and_then_def split: sum.splits)
  from v have "(\<exists>s. x = JStr s \<and> length s \<le> 100) \<or> (\<exists>xs. x = JArr xs \<and> length xs \<le> 100)"
    by (cases v) auto
  with x show ?thesis by simp
qed

lemma feedback_entry_str:
  assumes "map_of kvs ''plan_text'' = Some (JStr s)"
  shows "\<exists>entry. feedback_entry (JObj kvs) = Inr entry \<and> plan_excerpt entry = JStr (take 100 s)"
  using assms by (simp add: feedback_entry_def dict_get_obj)

lemma round_double_exact:
  assumes "int (bitlen \<bar>m\<bar>) \<le> 53" "- 1074 \<le> e" "int (bitlen \<bar>m\<bar>) + e \<le> 1024"
  shows "round_double m e = Fin m e"
proof -
  from assms have k: "nat (max (int (bitlen \<bar>m\<bar>) - 53) (- 1074 - e)) = 0"
    by simp
  have r: "round_half_even m 0 = m"
    by (simp add: round_half_even_def)
  from assms(3) show ?thesis
    unfolding round_double_def Let_def k r by simp
qed

lemma valof_times_10: "valof (Fin (m * 10) e) = valof (Fin m e) * 10"
  by simp

section \<open>The mail handler's parameter check\<close>

text \<open>
  C8, as amended. For every /send-email request whose body is a JSON object in which
  \<^verbatim>\<open>to_email\<close>, \<^verbatim>\<open>plan_text\<close> or \<^verbatim>\<open>type\<close> is absent, the answer is 400 with the error
  \<^verbatim>\<open>Missing email parameters\<close>, and no call to the mail library has been made: the list of
  calls is empty, so no relay session was opened. For a body that is not a JSON object the
  answer is 500 with \<^verbatim>\<open>Failed to send email\<close>, again with no call made.
\<close>

theorem send_email_missing_parameters:
  "(map_of kvs ''to_email'' = None \<or> map_of kvs ''plan_text'' = None
      \<or> map_of kvs ''type'' = None
    \<longrightarrow> send_email env (JObj kvs)
        = ((JObj [(''error'', JStr ''Missing email parameters'')], 400), []))
   \<and> ((\<forall>fields. data \<noteq> JObj fields)
    \<longrightarrow> send_email env data
        = ((JObj [(''error'', JStr ''Failed to send email'')], 500), []))"
proof (intro conjI impI)
  assume "map_of kvs ''to_email'' = None \<or> map_of kvs ''plan_text'' = None
      \<or> map_of kvs ''type'' = None"
  then show "send_email env (JObj kvs)
        = ((JObj [(''error'', JStr ''Missing email parameters'')], 400), [])"
    by (auto simp: send_email_def read_email_params_obj)
next
  assume "\<forall>fields. data \<noteq> JObj fields"
  then show "send_email env data
        = ((JObj [(''error'', JStr ''Failed to send email'')], 500), [])"
    by (rule send_email_not_object)
qed

theorem send_email_missing_parameters_witness:
  "send_email (\<lambda>c. True) (JObj [(''to_email'', JStr ''a@b.c''), (''type'', JStr ''GRE'')])
     = ((JObj [(''error'', JStr ''Missing email parameters'')], 400), [])
   \<and> send_email (\<lambda>c. True) JNull
     = ((JObj [(''error'', JStr ''Failed to send email'')], 500), [])"
  using send_email_missing_parameters
    [of "[(''to_email'', JStr ''a@b.c''), (''type'', JStr ''GRE'')]" "\<lambda>c. True" JNull]
  by simp

text \<open>
  As stated, for every request, C8 fails: in the body \<^verbatim>\<open>[]\<close> all three fields are absent,
  and the answer is 500, not 400.
\<close>

theorem send_email_missing_parameters_counterexample:
  "send_email (\<lambda>c. True) (JArr [])
   = ((JObj [(''error'', JStr ''Failed to send email'')], 500), [])"
  by code_simp

text \<open>
  C10. For every /send-email request in which \<^verbatim>\<open>to_email\<close>, \<^verbatim>\<open>plan_text\<close> or \<^verbatim>\<open>type\<close> is
  present but the empty string, the answer is the same 400 \<^verbatim>\<open>Missing email parameters\<close>
  as for a request that has none of the fields, again with no call to the mail library:
  the check tests truthiness.
\<close>

theorem send_email_empty_string:
  assumes "map_of kvs ''to_email'' = Some (JStr []) \<or> map_of kvs ''plan_text'' = Some (JStr [])
           \<or> map_of kvs ''type'' = Some (JStr [])"
  shows "send_email env (JObj kvs)
         = ((JObj [(''error'', JStr ''Missing email parameters'')], 400), [])
       \<and> send_email env (JObj kvs) = send_email env (JObj [])"
  using assms by (auto simp: send_email_def read_email_params_obj)

theorem send_email_empty_string_witness:
  "send_email (\<lambda>c. True)
     (JObj [(''to_email'', JStr ''a@b.c''), (''plan_text'', JStr []), (''type'', JStr ''GRE'')])
   = ((JObj [(''error'', JStr ''Missing email parameters'')], 400), [])
   \<and> send_email (\<lambda>c. True)
       (JObj [(''to_email'', JStr ''a@b.c''), (''plan_text'', JStr []), (''type'', JStr ''GRE'')])
     = send_email (\<lambda>c. True) (JObj [])"
  by (rule send_email_empty_string) simp

section \<open>The stored feedback\<close>

text \<open>
  C9, as amended. For every /submit-feedback request, whatever the store does: either the
  answer is 500 and the collection is unchanged, or the answer is 200 and the collection
  has one more entry. When \<^verbatim>\<open>plan_text\<close> is the string \<open>s\<close> (or absent, \<open>s\<close> empty), the
  stored \<^verbatim>\<open>plan_excerpt\<close> is the first 100 characters of \<open>s\<close>, so at most 100 characters
  however long \<open>s\<close> is. When \<^verbatim>\<open>plan_text\<close> is a JSON array, the stored excerpt is its first
  100 items, whatever their length.
\<close>

theorem feedback_excerpt_bounded:
  assumes "submit_feedback add_ok db data = (resp, db')"
  shows "((snd resp = 500 \<and> db' = db) \<or> (snd resp = 200 \<and> (\<exists>entry. db' = db @ [entry])))
       \<and> (\<forall>s. dict_get data ''plan_text'' (JStr []) = Inr (JStr s) \<and> snd resp = 200
              \<longrightarrow> (\<exists>entry. db' = db @ [entry] \<and> plan_excerpt entry = JStr (take 100 s)
                       \<and> length (take 100 s) \<le> 100))
       \<and> (\<forall>xs. dict_get data ''plan_text'' (JStr []) = Inr (JArr xs) \<and> snd resp = 200
              \<longrightarrow> (\<exists>entry. db' = db @ [entry] \<and> plan_excerpt entry = JArr (take 100 xs)))"
proof (cases "feedback_entry data")
  case (Inl e)
  with assms show ?thesis
    by (auto simp: submit_feedback_def)
next
  case (Inr entry)
  have str: "plan_excerpt entry = JStr (take 100 s)"
    if "dict_get data ''plan_text'' (JStr []) = Inr (JStr s)" for s
    using that Inr by (auto simp: feedback_entry_def and_then_eq_Inr)
  have arr: "plan_excerpt entry = JArr (take 100 xs)"
    if "dict_get data ''plan_text'' (JStr []) = Inr (JArr xs)" for xs
    using that Inr by (auto simp: feedback_entry_def and_then_eq_Inr)
  show ?thesis
  proof (cases "add_ok entry")
    case True
    with assms Inr have r: "snd resp = 200" and d: "db' = db @ [entry]"
      by (auto simp: submit_feedback_def)
    from r d str arr show ?thesis
      by auto
  next
    case False
    with assms Inr have "snd resp = 500" and "db' = db"
      by (auto simp: submit_feedback_def)
    then show ?thesis by simp
  qed
qed

theorem feedback_excerpt_bounded_witness:
  "submit_feedback (\<lambda>e. True) []
     (JObj [(''rating'', JInt 5), (''plan_text'', JStr (replicate 120 (CHR ''x'')))])
   = ((JObj [(''message'', JStr ''Feedback stored in Firebase'')], 200),
      [\<lparr>exam_type = JNull, rating = JInt 5, comment = JNull,
        plan_excerpt = JStr (replicate 100 (CHR ''x''))\<rparr>])
   \<and> dict_get (JObj [(''rating'', JInt 5), (''plan_text'', JStr (replicate 120 (CHR ''x'')))])
       ''plan_text'' (JStr []) = Inr (JStr (replicate 120 (CHR ''x'')))
   \<and> (\<exists>entry. [\<lparr>exam_type = JNull, rating = JInt 5, comment = JNull,
                  plan_excerpt = JStr (replicate 100 (CHR ''x''))\<rparr>] = [] @ [entry]
         \<and> plan_excerpt entry = JStr (take 100 (replicate 120 (CHR ''x'')))
         \<and> length (take 100 (replicate 120 (CHR ''x''))) \<le> 100)"
proof -
  have run: "submit_feedback (\<lambda>e. True) []
       (JObj [(''rating'', JInt 5), (''plan_text'', JStr (replicate 120 (CHR ''x'')))])
     = ((JObj [(''message'', JStr ''Feedback stored in Firebase'')], 200),
        [\<lparr>exam_type = JNull, rating = JInt 5, comment = JNull,
          plan_excerpt = JStr (replicate 100 (CHR ''x''))\<rparr>])"
    by code_simp
  have field: "dict_get (JObj [(''rating'', JInt 5), (''plan_text'', JStr (replicate 120 (CHR ''x'')))])
       ''plan_text'' (JStr []) = Inr (JStr (replicate 120 (CHR ''x'')))"
    by (simp add: dict_get_def)
  from feedback_excerpt_bounded [OF run] field have
    "\<exists>entry. [\<lparr>exam_type = JNull, rating = JInt 5, comment = JNull,
                  plan_excerpt = JStr (replicate 100 (CHR ''x''))\<rparr>] = [] @ [entry]
         \<and> plan_excerpt entry = JStr (take 100 (replicate 120 (CHR ''x'')))
         \<and> length (take 100 (replicate 120 (CHR ''x''))) \<le> 100"
    by simp
  with run field show ?thesis
    by (intro conjI)
qed

text \<open>
  As stated, for every request, C9 fails: a \<^verbatim>\<open>plan_text\<close> that is an array of one string of
  130 characters is stored whole.
\<close>

theorem feedback_excerpt_bounded_counterexample:
  "submit_feedback (\<lambda>e. True) []
     (JObj [(''rating'', JInt 5), (''plan_text'', JArr [JStr (replicate 130 (CHR ''x''))])])
   = ((JObj [(''message'', JStr ''Feedback stored in Firebase'')], 200),
      [\<lparr>exam_type = JNull, rating = JInt 5, comment = JNull,
        plan_excerpt = JArr [JStr (replicate 130 (CHR ''x''))]\<rparr>])
   \<and> length (replicate 130 (CHR ''x'')) = 130"
  by code_simp

section \<open>The profile matcher\<close>




text \<open>
  C2. The claim is that the Strict tier accepts a row exactly when the row's career goal
  contains the profile's, ignoring case, and conditions (b), (c), (d) hold. The code
  lowercases and strips the goal as text and then searches with \<^verbatim>\<open>str.contains\<close>, which
  reads it as a regular expression: for the career goal \<^verbatim>\<open>A.I.\<close> the Strict tier accepts
  the row \<^verbatim>\<open>Radiologist\<close>, whose career goal does not contain \<^verbatim>\<open>a.i.\<close>, and the handler
  recommends it. (For goals without special characters the tier is as claimed:
  \<open>strict_tier_literal\<close>.)
\<close>

theorem strict_tier_regex_dots:
  "run_filter strict_lib (Table [radiology]) ''a.i.'' (Fin 4 0) 3000 ''visual'' True False False
     = Inr [radiology]
   \<and> career_goal radiology = Some ''Radiologist''
   \<and> \<not> sublist ''a.i.'' (lower ''Radiologist'')
   \<and> analyze_profile strict_lib (Table [radiology])
       (JObj [(''personality'', JStr ''INTJ''), (''gpa'', JInt 4), (''career_goal'', JStr ''A.I.''),
              (''budget'', JInt 3000), (''learning_style'', JStr ''visual'')])
     = (JObj [(''recommended_courses'', JArr [JStr ''MD Radiology'']),
              (''top_universities'', JArr [JStr ''Z'']),
              (''recommended_countries'', JArr [JStr ''DE'']),
              (''match_score'', JInt 40)], 200)"
  by code_simp




section \<open>The match score\<close>

text \<open>
  C4. Whenever the handler answers 200, the \<^verbatim>\<open>match_score\<close> of the answer is the minimum
  of 100 and the truncation towards zero of \<^verbatim>\<open>gpa * 10\<close>, a function of the GPA alone,
  whichever tier and however many rows matched. \<^verbatim>\<open>gpa * 10\<close> is the product of doubles,
  which is the exact product whenever that is a double; for the GPA 7.5 the score is 75,
  for 11 it is 100, for 0 it is 0.
\<close>

theorem match_score_formula:
  assumes "analyze_profile lib df data = (body, 200)"
  shows "\<exists>gpa goal budget style names unis countries.
           read_profile lib data = Inr (gpa, goal, budget, style)
           \<and> body = JObj [(''recommended_courses'', JArr names),
                          (''top_universities'', JArr unis),
                          (''recommended_countries'', JArr countries),
                          (''match_score'',
                           JInt (min 100 (trunc (valof (fmul gpa (Fin 10 0))))))]
           \<and> (gpa = Fin 15 (- 1) \<longrightarrow> min 100 (trunc (valof (fmul gpa (Fin 10 0)))) = 75)
           \<and> (gpa = Fin 11 0 \<longrightarrow> min 100 (trunc (valof (fmul gpa (Fin 10 0)))) = 100)
           \<and> (gpa = Fin 0 0 \<longrightarrow> min 100 (trunc (valof (fmul gpa (Fin 10 0)))) = 0)
           \<and> (\<forall>m e. gpa = Fin m e \<and> int (bitlen \<bar>m * 10\<bar>) \<le> 53 \<and> - 1074 \<le> e
                     \<and> int (bitlen \<bar>m * 10\<bar>) + e \<le> 1024
                 \<longrightarrow> valof (fmul gpa (Fin 10 0)) = valof gpa * 10)"
proof -
  from analyze_profile_success [OF assms] obtain gpa goal budget style rows found n where
    h: "read_profile lib data = Inr (gpa, goal, budget, style)"
       "int_of_float (fmul gpa (Fin 10 0)) = Inr n"
       "body = match_body (take 3 (spec_selected found gpa budget style rows)) (min 100 n)"
    by blast
  from h(2) have n: "n = trunc (valof (fmul gpa (Fin 10 0)))"
    by (rule int_of_float_trunc)
  have a: "min 100 (trunc (valof (fmul (Fin 15 (- 1)) (Fin 10 0)))) = 75"
    by code_simp
  have b: "min 100 (trunc (valof (fmul (Fin 11 0) (Fin 10 0)))) = 100"
    by code_simp
  have c: "min 100 (trunc (valof (fmul (Fin 0 0) (Fin 10 0)))) = 0"
    by code_simp
  have d: "valof (fmul (Fin m e) (Fin 10 0)) = valof (Fin m e) * 10"
    if "int (bitlen \<bar>m * 10\<bar>) \<le> 53" "- 1074 \<le> e" "int (bitlen \<bar>m * 10\<bar>) + e \<le> 1024" for m e
  proof -
    from that have "round_double (m * 10) e = Fin (m * 10) e"
      by (intro round_double_exact) simp_all
    then show ?thesis
      by (simp del: valof.simps add: valof_times_10)
  qed
  define ms where "ms = take 3 (spec_selected found gpa budget style rows)"
  have "read_profile lib data = Inr (gpa, goal, budget, style)
           \<and> body = JObj [(''recommended_courses'',
                           JArr (map (\<lambda>r. case recommended_course r of
                                             Some s \<Rightarrow> JStr s | None \<Rightarrow> JFloat NaN) ms)),
                          (''top_universities'',
                           JArr (map (\<lambda>r. case university r of
                                             Some s \<Rightarrow> JStr s | None \<Rightarrow> JFloat NaN) ms)),
                          (''recommended_countries'',
                           JArr (map (\<lambda>r. case country r of
                                             Some s \<Rightarrow> JStr s | None \<Rightarrow> JFloat NaN) ms)),
                          (''match_score'',
                           JInt (min 100 (trunc (valof (fmul gpa (Fin 10 0))))))]
           \<and> (gpa = Fin 15 (- 1) \<longrightarrow> min 100 (trunc (valof (fmul gpa (Fin 10 0)))) = 75)
           \<and> (gpa = Fin 11 0 \<longrightarrow> min 100 (trunc (valof (fmul gpa (Fin 10 0)))) = 100)
           \<and> (gpa = Fin 0 0 \<longrightarrow> min 100 (trunc (valof (fmul gpa (Fin 10 0)))) = 0)
           \<and> (\<forall>m e. gpa = Fin m e \<and> int (bitlen \<bar>m * 10\<bar>) \<le> 53 \<and> - 1074 \<le> e
                     \<and> int (bitlen \<bar>m * 10\<bar>) + e \<le> 1024
                 \<longrightarrow> valof (fmul gpa (Fin 10 0)) = valof gpa * 10)"
  proof (intro conjI impI allI)
    show "read_profile lib data = Inr (gpa, goal, budget, style)"
      by (rule h(1))
    show "body = JObj [(''recommended_courses'',
                           JArr (map (\<lambda>r. case recommended_course r of
                                             Some s \<Rightarrow> JStr s | None \<Rightarrow> JFloat NaN) ms)),
                          (''top_universities'',
                           JArr (map (\<lambda>r. case university r of
                                             Some s \<Rightarrow> JStr s | None \<Rightarrow> JFloat NaN) ms)),
                          (''recommended_countries'',
                           JArr (map (\<lambda>r. case country r of
                                             Some s \<Rightarrow> JStr s | None \<Rightarrow> JFloat NaN) ms)),
                          (''match_score'',
                           JInt (min 100 (trunc (valof (fmul gpa (Fin 10 0))))))]"
      using h(3) n by (simp only: match_body_explicit ms_def)
    show "min 100 (trunc (valof (fmul gpa (Fin 10 0)))) = 75" if "gpa = Fin 15 (- 1)"
      using a that by (simp only:)
    show "min 100 (trunc (valof (fmul gpa (Fin 10 0)))) = 100" if "gpa = Fin 11 0"
      using b that by (simp only:)
    show "min 100 (trunc (valof (fmul gpa (Fin 10 0)))) = 0" if "gpa = Fin 0 0"
      using c that by (simp only:)
    show "valof (fmul gpa (Fin 10 0)) = valof gpa * 10"
      if "gpa = Fin m e \<and> int (bitlen \<bar>m * 10\<bar>) \<le> 53 \<and> - 1074 \<le> e
                     \<and> int (bitlen \<bar>m * 10\<bar>) + e \<le> 1024" for m e
      using that d [of m e] by (simp only:)
  qed
  then show ?thesis
    by (intro exI)
qed

theorem match_score_formula_witness:
  "analyze_profile strict_lib (Table [remedial]) seven_half_request
     = (JObj [(''recommended_courses'', JArr [JStr ''Foundation Year'']),
              (''top_universities'', JArr [JStr ''U'']),
              (''recommended_countries'', JArr [JStr ''IN'']),
              (''match_score'', JInt 75)], 200)
   \<and> analyze_profile strict_lib (Table [remedial]) eleven_request
     = (JObj [(''recommended_courses'', JArr [JStr ''Foundation Year'']),
              (''top_universities'', JArr [JStr ''U'']),
              (''recommended_countries'', JArr [JStr ''IN'']),
              (''match_score'', JInt 100)], 200)
   \<and> analyze_profile strict_lib (Table [remedial]) zero_request
     = (JObj [(''recommended_courses'', JArr [JStr ''Foundation Year'']),
              (''top_universities'', JArr [JStr ''U'']),
              (''recommended_countries'', JArr [JStr ''IN'']),
              (''match_score'', JInt 0)], 200)
   \<and> min 100 (trunc (valof (fmul (Fin 15 (- 1)) (Fin 10 0)))) = 75
   \<and> valof (fmul (Fin 15 (- 1)) (Fin 10 0)) = valof (Fin 15 (- 1)) * 10"
proof -
  have run: "analyze_profile strict_lib (Table [remedial]) seven_half_request
     = (JObj [(''recommended_courses'', JArr [JStr ''Foundation Year'']),
              (''top_universities'', JArr [JStr ''U'']),
              (''recommended_countries'', JArr [JStr ''IN'']),
              (''match_score'', JInt 75)], 200)"
    by code_simp
  have run11: "analyze_profile strict_lib (Table [remedial]) eleven_request
     = (JObj [(''recommended_courses'', JArr [JStr ''Foundation Year'']),
              (''top_universities'', JArr [JStr ''U'']),
              (''recommended_countries'', JArr [JStr ''IN'']),
              (''match_score'', JInt 100)], 200)"
    by code_simp
  have run0: "analyze_profile strict_lib (Table [remedial]) zero_request
     = (JObj [(''recommended_courses'', JArr [JStr ''Foundation Year'']),
              (''top_universities'', JArr [JStr ''U'']),
              (''recommended_countries'', JArr [JStr ''IN'']),
              (''match_score'', JInt 0)], 200)"
    by code_simp
  have rp: "read_profile strict_lib seven_half_request = Inr (Fin 15 (- 1), ''teacher'', 0, [])"
    by code_simp
  have b: "int (bitlen \<bar>15 * 10\<bar>) \<le> 53" "int (bitlen \<bar>15 * 10\<bar>) + (- 1) \<le> 1024"
    by code_simp+
  from match_score_formula [OF run] obtain gpa goal budget style where
    r: "read_profile strict_lib seven_half_request = Inr (gpa, goal, budget, style)"
    and v: "gpa = Fin 15 (- 1) \<longrightarrow> min 100 (trunc (valof (fmul gpa (Fin 10 0)))) = 75"
    and x: "\<forall>m e. gpa = Fin m e \<and> int (bitlen \<bar>m * 10\<bar>) \<le> 53 \<and> - 1074 \<le> e
                     \<and> int (bitlen \<bar>m * 10\<bar>) + e \<le> 1024
                 \<longrightarrow> valof (fmul gpa (Fin 10 0)) = valof gpa * 10"
    by blast
  from r rp have g: "gpa = Fin 15 (- 1)"
    by simp
  from v g have v': "min 100 (trunc (valof (fmul (Fin 15 (- 1)) (Fin 10 0)))) = 75"
    by blast
  have c: "- 1074 \<le> (- 1 :: int)"
    by simp
  from x [rule_format, of 15 "- 1", OF conjI [OF g conjI [OF b(1) conjI [OF c b(2)]]]] g
  have x': "valof (fmul (Fin 15 (- 1)) (Fin 10 0)) = valof (Fin 15 (- 1)) * 10"
    by (simp only:)
  from run run11 run0 v' x' show ?thesis
    by (intro conjI)
qed

text \<open>
  C5, as amended. Whenever the handler answers 200, the \<^verbatim>\<open>match_score\<close> of the answer is
  at most 100, and it is at least 0 when the GPA is at least 0, in particular when every
  row of the catalog has a minimum GPA that is at least 0.
\<close>

theorem match_score_bounds:
  assumes "analyze_profile lib df data = (body, 200)"
  shows "\<exists>gpa goal budget style rows names unis countries score.
           read_profile lib data = Inr (gpa, goal, budget, style) \<and> df = Table rows
           \<and> body = JObj [(''recommended_courses'', JArr names),
                          (''top_universities'', JArr unis),
                          (''recommended_countries'', JArr countries),
                          (''match_score'', JInt score)]
           \<and> score \<le> 100
           \<and> (fle (Fin 0 0) gpa \<longrightarrow> 0 \<le> score)
           \<and> (list_all (\<lambda>r. fle (Fin 0 0) (personality_min_gpa r)) rows \<longrightarrow> 0 \<le> score)"
proof -
  from analyze_profile_success [OF assms] obtain gpa goal budget style rows found n where
    h: "read_profile lib data = Inr (gpa, goal, budget, style)" "df = Table rows"
       "spec_selected found gpa budget style rows \<noteq> []"
       "int_of_float (fmul gpa (Fin 10 0)) = Inr n"
       "body = match_body (take 3 (spec_selected found gpa budget style rows)) (min 100 n)"
    by blast
  from h(4) have s: "match_score gpa = Inr (min 100 n)"
    by (simp add: match_score_def)
  have le: "min 100 n \<le> 100"
    by simp
  have ge: "0 \<le> min 100 n" if "fle (Fin 0 0) gpa"
    using s that by (rule match_score_nonneg)
  have ge': "0 \<le> min 100 n" if all: "list_all (\<lambda>r. fle (Fin 0 0) (personality_min_gpa r)) rows"
  proof -
    from spec_selected_min_gpa [OF h(3)] obtain r where
      "r \<in> set rows" and "fle (personality_min_gpa r) gpa"
      by blast
    with all have "fle (Fin 0 0) gpa"
      by (auto simp: list_all_iff intro: fle_trans_zero)
    then show ?thesis by (rule ge)
  qed
  define ms where "ms = take 3 (spec_selected found gpa budget style rows)"
  have "read_profile lib data = Inr (gpa, goal, budget, style) \<and> df = Table rows
           \<and> body = JObj [(''recommended_courses'',
                           JArr (map (\<lambda>r. case recommended_course r of
                                             Some s \<Rightarrow> JStr s | None \<Rightarrow> JFloat NaN) ms)),
                          (''top_universities'',
                           JArr (map (\<lambda>r. case university r of
                                             Some s \<Rightarrow> JStr s | None \<Rightarrow> JFloat NaN) ms)),
                          (''recommended_countries'',
                           JArr (map (\<lambda>r. case country r of
                                             Some s \<Rightarrow> JStr s | None \<Rightarrow> JFloat NaN) ms)),
                          (''match_score'', JInt (min 100 n))]
           \<and> min 100 n \<le> 100
           \<and> (fle (Fin 0 0) gpa \<longrightarrow> 0 \<le> min 100 n)
           \<and> (list_all (\<lambda>r. fle (Fin 0 0) (personality_min_gpa r)) rows \<longrightarrow> 0 \<le> min 100 n)"
  proof (intro conjI impI)
    show "read_profile lib data = Inr (gpa, goal, budget, style)"
      by (rule h(1))
    show "df = Table rows"
      by (rule h(2))
    show "body = JObj [(''recommended_courses'',
                           JArr (map (\<lambda>r. case recommended_course r of
                                             Some s \<Rightarrow> JStr s | None \<Rightarrow> JFloat NaN) ms)),
                          (''top_universities'',
                           JArr (map (\<lambda>r. case university r of
                                             Some s \<Rightarrow> JStr s | None \<Rightarrow> JFloat NaN) ms)),
                          (''recommended_countries'',
                           JArr (map (\<lambda>r. case country r of
                                             Some s \<Rightarrow> JStr s | None \<Rightarrow> JFloat NaN) ms)),
                          (''match_score'', JInt (min 100 n))]"
      using h(5) by (simp only: match_body_explicit ms_def)
    show "min 100 n \<le> 100"
      by (rule le)
    show "0 \<le> min 100 n" if "fle (Fin 0 0) gpa"
      using that by (rule ge)
    show "0 \<le> min 100 n" if "list_all (\<lambda>r. fle (Fin 0 0) (personality_min_gpa r)) rows"
      using that by (rule ge')
  qed
  then show ?thesis
    by (intro exI)
qed

theorem match_score_bounds_witness:
  "analyze_profile strict_lib (Table [msds]) scenario_request
     = (JObj [(''recommended_courses'', JArr [JStr ''MSDS'']),
              (''top_universities'', JArr [JStr ''X'']),
              (''recommended_countries'', JArr [JStr ''US'']),
              (''match_score'', JInt 35)], 200)
   \<and> fle (Fin 0 0) (Fin 7 (- 1))
   \<and> list_all (\<lambda>r. fle (Fin 0 0) (personality_min_gpa r)) [msds]
   \<and> (35 :: int) \<le> 100 \<and> (0 :: int) \<le> 35"
proof -
  have run: "analyze_profile strict_lib (Table [msds]) scenario_request
     = (JObj [(''recommended_courses'', JArr [JStr ''MSDS'']),
              (''top_universities'', JArr [JStr ''X'']),
              (''recommended_countries'', JArr [JStr ''US'']),
              (''match_score'', JInt 35)], 200)"
    by code_simp
  have rp: "read_profile strict_lib scenario_request = Inr (Fin 7 (- 1), ''data'', 3000, ''visual'')"
    by code_simp
  have g: "fle (Fin 0 0) (Fin 7 (- 1))"
    by simp
  have a: "list_all (\<lambda>r. fle (Fin 0 0) (personality_min_gpa r)) [msds]"
    by (simp add: msds_def)
  from match_score_bounds [OF run] obtain gpa goal budget style score where
    r: "read_profile strict_lib scenario_request = Inr (gpa, goal, budget, style)"
    and s: "JInt 35 = JInt score"
    and le: "score \<le> 100"
    and ge: "fle (Fin 0 0) gpa \<longrightarrow> 0 \<le> score"
    by auto
  from r rp have "gpa = Fin 7 (- 1)"
    by simp
  with ge g have "0 \<le> score"
    by simp
  with s le have "(35 :: int) \<le> 100 \<and> (0 :: int) \<le> 35"
    by simp
  with run g a show ?thesis
    by (intro conjI) simp_all
qed

text \<open>
  As stated, for negative GPAs too, C5 fails: with a row that admits a negative GPA, the
  profile with GPA \<open>-1\<close> is answered 200 with \<^verbatim>\<open>match_score\<close> \<open>-10\<close>.
\<close>

theorem match_score_bounds_counterexample:
  "analyze_profile strict_lib (Table [remedial]) negative_request
   = (JObj [(''recommended_courses'', JArr [JStr ''Foundation Year'']),
            (''top_universities'', JArr [JStr ''U'']),
            (''recommended_countries'', JArr [JStr ''IN'']),
            (''match_score'', JInt (- 10))], 200)"
  by code_simp

section \<open>Malformed profiles\<close>

text \<open>
  C6, as amended. For every /analyze-profile request whose \<^verbatim>\<open>gpa\<close> is not accepted by
  \<^verbatim>\<open>float\<close> or whose \<^verbatim>\<open>budget\<close> is not accepted by \<^verbatim>\<open>int\<close>, whatever the catalog, the
  answer is the generic 500 \<^verbatim>\<open>Profile analysis failed\<close>.
\<close>

theorem malformed_profile_is_500:
  assumes "dict_get data ''gpa'' (JInt 0) = Inr g" "dict_get data ''budget'' (JInt 0) = Inr b"
    and "(\<exists>e. py_float lib g = Inl e) \<or> (\<exists>e. py_int lib b = Inl e)"
  shows "analyze_profile lib df data = (JObj [(''error'', JStr ''Profile analysis failed'')], 500)"
proof -
  from assms read_profile_gpa read_profile_budget obtain e where "read_profile lib data = Inl e"
    by blast
  then show ?thesis
    by (simp add: analyze_profile_def analyze_profile_try_def)
qed

theorem malformed_profile_is_500_witness:
  "dict_get (JObj [(''gpa'', JFloat (Fin 7 (- 1))), (''budget'', JArr [JInt 3000])]) ''gpa'' (JInt 0)
     = Inr (JFloat (Fin 7 (- 1)))
   \<and> dict_get (JObj [(''gpa'', JFloat (Fin 7 (- 1))), (''budget'', JArr [JInt 3000])]) ''budget'' (JInt 0)
     = Inr (JArr [JInt 3000])
   \<and> py_int strict_lib (JArr [JInt 3000]) = Inl TypeError
   \<and> analyze_profile strict_lib (Table [msds])
        (JObj [(''gpa'', JFloat (Fin 7 (- 1))), (''budget'', JArr [JInt 3000])])
      = (JObj [(''error'', JStr ''Profile analysis failed'')], 500)"
proof -
  have g: "dict_get (JObj [(''gpa'', JFloat (Fin 7 (- 1))), (''budget'', JArr [JInt 3000])]) ''gpa'' (JInt 0)
     = Inr (JFloat (Fin 7 (- 1)))"
    by (simp add: dict_get_def)
  have b: "dict_get (JObj [(''gpa'', JFloat (Fin 7 (- 1))), (''budget'', JArr [JInt 3000])]) ''budget'' (JInt 0)
     = Inr (JArr [JInt 3000])"
    by (simp add: dict_get_def)
  have e: "py_int strict_lib (JArr [JInt 3000]) = Inl TypeError"
    by (simp add: py_int_def)
  then have "(\<exists>e. py_float strict_lib (JFloat (Fin 7 (- 1))) = Inl e)
             \<or> (\<exists>e. py_int strict_lib (JArr [JInt 3000]) = Inl e)"
    by blast
  from malformed_profile_is_500 [OF g b this, of "Table [msds]"] g b e show ?thesis
    by simp
qed

text \<open>
  As stated, with status 400, C6 fails: the GPA \<^verbatim>\<open>"abc"\<close> is answered 500.
\<close>

theorem malformed_profile_is_500_counterexample:
  "analyze_profile strict_lib (Table [msds])
     (JObj [(''personality'', JStr ''INTJ''), (''gpa'', JStr ''abc''),
            (''career_goal'', JStr ''data''), (''budget'', JInt 3000),
            (''learning_style'', JStr ''visual'')])
   = (JObj [(''error'', JStr ''Profile analysis failed'')], 500)"
  by code_simp

section \<open>Upstream answers without content\<close>




end
